theory Spec2Isabelle
  imports Main "HOL-Library.Sublist"
begin

section \<open>Strings\<close>

text \<open>
  A JavaScript string is modelled as a \<^typ>\<open>string\<close> holding its UTF-8 bytes: an ASCII
  character is one \<^typ>\<open>char\<close>, any other code point is its multi-byte sequence, written
  out with \<open>CHR 0x..\<close>. No operation modelled here counts characters, and the byte of an
  ASCII character never occurs inside a multi-byte sequence, so replacing or comparing ASCII
  characters on the bytes agrees with the source.
\<close>

text \<open>\<^verbatim>\<open>Array.prototype.join(sep)\<close> on an array of strings.\<close>

fun join :: "string \<Rightarrow> string list \<Rightarrow> string" where
  "join sep [] = []"
| "join sep [x] = x"
| "join sep (x # y # ys) = x @ sep @ join sep (y # ys)"

text \<open>\<^verbatim>\<open>a || b\<close> on an optional string: \<^verbatim>\<open>undefined\<close> and \<^verbatim>\<open>""\<close> are falsy.\<close>

fun truthy :: "string option \<Rightarrow> bool" where
  "truthy None = False"
| "truthy (Some s) = (s \<noteq> [])"

definition or_else :: "string option \<Rightarrow> string \<Rightarrow> string" where
  "or_else v d = (case v of None \<Rightarrow> d | Some s \<Rightarrow> if s = [] then d else s)"

text \<open>
  \<^verbatim>\<open>String.prototype.trim\<close> removes the ECMAScript white-space and line-terminator code
  points from both ends. \<open>whiteSpace\<close> lists their UTF-8 encodings (TAB, LF, VT, FF, CR, SP,
  U+00A0, U+1680, U+2000 to U+200A, U+2028, U+2029, U+202F, U+205F, U+3000, U+FEFF).
\<close>

definition whiteSpace :: "string list" where
  "whiteSpace =
    [[CHR 0x09], [CHR 0x0A], [CHR 0x0B], [CHR 0x0C], [CHR 0x0D], [CHR 0x20],
     [CHR 0xC2, CHR 0xA0], [CHR 0xE1, CHR 0x9A, CHR 0x80],
     [CHR 0xE2, CHR 0x80, CHR 0x80], [CHR 0xE2, CHR 0x80, CHR 0x81],
     [CHR 0xE2, CHR 0x80, CHR 0x82], [CHR 0xE2, CHR 0x80, CHR 0x83],
     [CHR 0xE2, CHR 0x80, CHR 0x84], [CHR 0xE2, CHR 0x80, CHR 0x85],
     [CHR 0xE2, CHR 0x80, CHR 0x86], [CHR 0xE2, CHR 0x80, CHR 0x87],
     [CHR 0xE2, CHR 0x80, CHR 0x88], [CHR 0xE2, CHR 0x80, CHR 0x89],
     [CHR 0xE2, CHR 0x80, CHR 0x8A], [CHR 0xE2, CHR 0x80, CHR 0xA8],
     [CHR 0xE2, CHR 0x80, CHR 0xA9], [CHR 0xE2, CHR 0x80, CHR 0xAF],
     [CHR 0xE2, CHR 0x81, CHR 0x9F], [CHR 0xE3, CHR 0x80, CHR 0x80],
     [CHR 0xEF, CHR 0xBB, CHR 0xBF]]"

text \<open>Remove, from the front of \<open>s\<close>, every leading occurrence of one of the sequences \<open>ws\<close>.\<close>

function stripLeading :: "string list \<Rightarrow> string \<Rightarrow> string" where
  "stripLeading ws s =
     (case find (\<lambda>w. w \<noteq> [] \<and> take (length w) s = w) ws of
        None \<Rightarrow> s
      | Some w \<Rightarrow> stripLeading ws (drop (length w) s))"
  by pat_completeness auto
termination
proof (relation "measure (\<lambda>(ws, s). length s)")
  show "wf (measure (\<lambda>(ws, s). length s))" by simp
next
  fix ws :: "string list" and s w :: string
  assume "find (\<lambda>w. w \<noteq> [] \<and> take (length w) s = w) ws = Some w"
  then have w: "w \<noteq> []" "take (length w) s = w"
    by (auto simp: find_Some_iff)
  from arg_cong [OF w(2), of length] have "length w \<le> length s"
    by simp
  with w show "((ws, drop (length w) s), (ws, s)) \<in> measure (\<lambda>(ws, s). length s)"
    by (cases w) auto
qed

declare stripLeading.simps [simp del]

definition trim :: "string \<Rightarrow> string" where
  "trim s = rev (stripLeading (map rev whiteSpace) (rev (stripLeading whiteSpace s)))"

text \<open>\<^verbatim>\<open>String(n)\<close> for a non-negative integer, and \<^verbatim>\<open>padStart\<close> with a one-character pad.\<close>

definition digit :: "nat \<Rightarrow> char" where
  "digit d = ''0123456789'' ! d"

fun String_of_nat :: "nat \<Rightarrow> string" where
  "String_of_nat n =
     (if n < 10 then [digit n]
      else String_of_nat (n div 10) @ [digit (n mod 10)])"

declare String_of_nat.simps [simp del]

definition padStart :: "nat \<Rightarrow> char \<Rightarrow> string \<Rightarrow> string" where
  "padStart n c s = replicate (n - length s) c @ s"

section \<open>Data model (types.ts)\<close>

datatype abnormality = HIGH | LOW | NORMAL

record LabResultItem =
  "abbreviation" :: string
  "value" :: string
  referenceRange :: "string option"
  abnormality :: abnormality

record NonLabData =
  examTitle :: string
  mainFindings :: "string list"
  impression :: string

datatype category = LAB | NON_LAB

record AnalyzedExam =
  id' :: string
  patientInitials :: string
  patientAge :: string
  collectionDate :: "string option"
  category :: category
  results :: "LabResultItem list"
  nonLabData :: "NonLabData option"
  rawSummary :: string

section \<open>Category lookup (ResultDisplay)\<close>

text \<open>
  \<^verbatim>\<open>SYSTEM_CATEGORIES\<close> is an object literal with non-numeric string keys, so
  \<^verbatim>\<open>Object.entries\<close> and \<^verbatim>\<open>Object.keys\<close> enumerate it in the order written: an
  association list.
\<close>

definition SYSTEM_CATEGORIES :: "(string \<times> string list) list" where
  "SYSTEM_CATEGORIES =
    [(''HEMOGRAMA'', [''Hb'', ''Ht'', ''VCM'', ''HCM'', ''CHCM'', ''RDW'', ''Leuco'', ''Neut'',
        ''Linf'', ''Mono'', ''Eos'', ''Plq'', ''MPV'']),
     (''RENAL'', [''Ur'', ''Cr'', ''Cist-C'']),
     (''ELETR'' @ [CHR 0xC3, CHR 0x93] @ ''LITOS'',
        [''Na'', ''K'', ''Ca'', ''Mg'', ''P'', ''Cl'', ''C'' @ [CHR 0xC3, CHR 0xA1] @ ''lcio Ion'']),
     (''METAB'' @ [CHR 0xC3, CHR 0x93] @ ''LICO'',
        [''Glic'', ''HbA1c'', ''Homa-IR'', ''Insul'', ''Lac'', ''Lactato'']),
     (''LIPIDOGRAMA'', [''Col-T'', ''HDL'', ''LDL'', ''TG'', ''VLDL'']),
     (''HEP'' @ [CHR 0xC3, CHR 0x81] @ ''TICO'',
        [''TGO'', ''TGP'', ''GGT'', ''FA'', ''Bil-T'', ''Bil-D'', ''Bil-I'', ''Albumina'',
         ''Prote'' @ [CHR 0xC3, CHR 0xAD] @ ''nas'']),
     (''HORMONAL'', [''TSH'', ''T4L'', ''T3'', ''Vit-D'', ''Vit-B12'', ''PTH'', ''Cortisol'']),
     (''INFLAMAT'' @ [CHR 0xC3, CHR 0x93] @ ''RIO'', [''PCR'', ''VHS'', ''Ferr'', ''Fibrin'', ''Proc'']),
     (''CARD'' @ [CHR 0xC3, CHR 0x8D] @ ''ACO'', [''Trop'', ''CK-MB'', ''BNP'', ''CK'']),
     (''GASOMETRIA'', [''pH'', ''pO2'', ''pCO2'', ''HCO3'', ''BE'', ''SatO2'']),
     (''URINA'', [''EAS'', ''Leuco-U'', ''Hem-U'', ''Prot-U''])]"

text \<open>The \<^verbatim>\<open>for ... of Object.entries(...)\<close> loop of \<^verbatim>\<open>getCategory\<close>, over any table.\<close>

fun firstCategory :: "(string \<times> string list) list \<Rightarrow> string \<Rightarrow> string" where
  "firstCategory [] abbr = ''OUTROS''"
| "firstCategory ((cat, items) # rest) abbr =
     (if abbr \<in> set items then cat else firstCategory rest abbr)"

definition getCategory :: "string \<Rightarrow> string" where
  "getCategory abbr = firstCategory SYSTEM_CATEGORIES abbr"

section \<open>Summary texts (PatientCard)\<close>

text \<open>What the card reads from \<^verbatim>\<open>new Date()\<close>: the day of the month and the zero-based month.\<close>

record today =
  getDate :: nat
  getMonth :: nat

text \<open>The template literal that stands in for a missing collection date.\<close>

definition ddmm :: "today \<Rightarrow> string" where
  "ddmm t =
     padStart 2 CHR ''0'' (String_of_nat (getDate t)) @ ''/'' @
     padStart 2 CHR ''0'' (String_of_nat (getMonth t + 1))"

definition dateStr :: "today \<Rightarrow> AnalyzedExam \<Rightarrow> string" where
  "dateStr t exam = or_else (collectionDate exam) (ddmm t)"

definition isError :: "AnalyzedExam \<Rightarrow> bool" where
  "isError exam = (results exam = [] \<and> nonLabData exam = None)"

definition abnormalResults :: "AnalyzedExam \<Rightarrow> LabResultItem list" where
  "abnormalResults exam =
     filter (\<lambda>item. abnormality item = HIGH \<or> abnormality item = LOW) (results exam)"

text \<open>
  The \<^verbatim>\<open>forEach\<close> that fills \<^verbatim>\<open>groupedResults\<close>, an object keyed by category:
  \<open>pushGrouped\<close> is its callback.
\<close>

definition pushGrouped ::
  "LabResultItem \<Rightarrow> (string \<rightharpoonup> LabResultItem list) \<Rightarrow> (string \<rightharpoonup> LabResultItem list)" where
  "pushGrouped item g =
     (let cat = getCategory (abbreviation item);
          g' = (if g cat = None then g(cat \<mapsto> []) else g)
      in g'(cat \<mapsto> the (g' cat) @ [item]))"

definition groupedResults :: "LabResultItem list \<Rightarrow> (string \<rightharpoonup> LabResultItem list)" where
  "groupedResults rs = fold pushGrouped rs Map.empty"

definition categoriesOrder :: "string list" where
  "categoriesOrder = map fst SYSTEM_CATEGORIES @ [''OUTROS'']"

definition formatValue :: "string \<Rightarrow> string" where
  "formatValue v = map (\<lambda>c. if c = CHR ''.'' then CHR '','' else c) v"

definition lineItem :: "LabResultItem \<Rightarrow> string" where
  "lineItem item =
     (let ref = (if truthy (referenceRange item)
                 then '' (Ref: '' @ the (referenceRange item) @ '')'' else [])
      in abbreviation item @ '' '' @ formatValue (value item) @ ref)"

definition fullTextBody :: "LabResultItem list \<Rightarrow> string" where
  "fullTextBody rs =
     fold (\<lambda>cat body.
         case groupedResults rs cat of
           None \<Rightarrow> body
         | Some g \<Rightarrow>
             if g = [] then body
             else let lineItems = join '' / '' (map lineItem g);
                      prefix' = (if cat = ''OUTROS'' then [] else cat @ '': '')
                  in body @ prefix' @ lineItems @ ''\<newline>'')
       categoriesOrder []"

definition abnormalItem :: "LabResultItem \<Rightarrow> string" where
  "abnormalItem item =
     (let arrow = (if abnormality item = HIGH then [CHR 0xE2, CHR 0x86, CHR 0x91]
                   else [CHR 0xE2, CHR 0x86, CHR 0x93])
      in abbreviation item @ '' '' @ formatValue (value item) @ '' '' @ arrow)"

record card =
  fullClipboardText :: string
  abnormalClipboardText :: string
  hasAbnormal :: bool

text \<open>
  The texts computed in the body of \<^verbatim>\<open>PatientCard\<close>. The three variables start as the
  empty string, the empty string and \<^verbatim>\<open>false\<close>; the \<open>LAB\<close> branch assigns all three, the
  other branch assigns the full text only.
\<close>

definition PatientCard :: "today \<Rightarrow> AnalyzedExam \<Rightarrow> card" where
  "PatientCard t exam =
     (if category exam = LAB then
        \<lparr> fullClipboardText =
            patientInitials exam @ '' - Lab ('' @ dateStr t exam @ ''):\<newline>'' @
            trim (fullTextBody (results exam)),
          abnormalClipboardText =
            patientInitials exam @ '' - Lab ('' @ dateStr t exam @ '') - ALTERA'' @
            [CHR 0xC3, CHR 0x87, CHR 0xC3, CHR 0x95] @ ''ES: '' @
            join '' / '' (map abnormalItem (abnormalResults exam)),
          hasAbnormal = (abnormalResults exam \<noteq> []) \<rparr>
      else
        let title = or_else (map_option examTitle (nonLabData exam))
                      (''Laudo M'' @ [CHR 0xC3, CHR 0xA9] @ ''dico'');
            findings = or_else
                (map_option (\<lambda>d. join ''\<newline>''
                     (map (\<lambda>f. [CHR 0xE2, CHR 0x80, CHR 0xA2] @ '' '' @ f) (mainFindings d)))
                   (nonLabData exam)) [];
            conclusion = or_else (map_option impression (nonLabData exam)) []
        in \<lparr> fullClipboardText =
               patientInitials exam @ '' - '' @ title @ '' ('' @ dateStr t exam @
               ''):\<newline>\<newline>ACHADOS:\<newline>'' @ findings @
               ''\<newline>\<newline>CONCLUS'' @ [CHR 0xC3, CHR 0x83] @ ''O:\<newline>'' @ conclusion,
             abnormalClipboardText = [],
             hasAbnormal = False \<rparr>)"

section \<open>Extraction service (geminiService.ts)\<close>

record CustomAbbreviation =
  ca_id :: string
  ca_examName :: string
  ca_abbreviation :: string

record AnalysisPreferences =
  showReferenceValues :: bool
  groupDates :: bool

text \<open>
  A \<^verbatim>\<open>Blob\<close> or \<^verbatim>\<open>File\<close>: its \<^verbatim>\<open>type\<close> property and its content. The declared input type
  is \<^verbatim>\<open>File[] | Blob | string\<close>; a \<^verbatim>\<open>File\<close> is a \<^verbatim>\<open>Blob\<close> too, so a single file can be
  passed where a blob is expected, and then none of the three input branches is taken.
\<close>

record blob =
  blob_type :: string
  blob_bytes :: string

datatype input = Text string | AudioBlob blob | SingleFile blob | Files "blob list"

datatype part = InlineData (mimeType: string) (data: "string option") | TextPart string

text \<open>
  The request handed to \<^verbatim>\<open>generateContent\<close>: the parts, and the two fragments that
  \<^verbatim>\<open>systemInstruction\<close> interpolates into its fixed text. The model name, the response
  schema and the temperature are constants of the call.
\<close>

record request =
  parts :: "part list"
  referenceValueRule :: string
  customRulesText :: string

text \<open>
  The element type of \<^verbatim>\<open>responseSchema\<close>, which the service is asked to follow. The
  callback of \<^verbatim>\<open>resultsArray.map\<close> supplies a default for every property it copies, so
  each property is optional here; \<^verbatim>\<open>nonLabData\<close> is nullable in the schema.
\<close>

record patientData =
  raw_patientInitials :: "string option"
  raw_patientAge :: "string option"
  raw_collectionDate :: "string option"
  raw_category :: "category option"
  labResults :: "LabResultItem list option"
  raw_nonLabData :: "NonLabData option"

text \<open>What \<^verbatim>\<open>JSON.parse\<close> returned: an array of such objects, or a single one.\<close>

datatype parsed = PArray "patientData list" | PObject patientData

text \<open>
  A thrown value: a JavaScript \<^verbatim>\<open>Error\<close> with its message, or the \<^verbatim>\<open>ProgressEvent\<close> with
  which \<^verbatim>\<open>fileToBase64\<close> rejects when the \<^verbatim>\<open>FileReader\<close> fails (it has no message).
\<close>

datatype thrown = Error string | ProgressEvent

fun message :: "thrown \<Rightarrow> string option" where
  "message (Error m) = Some m"
| "message ProgressEvent = None"

text \<open>
  Everything outside the program that \<^verbatim>\<open>analyzeLabExam\<close> and \<^verbatim>\<open>processAnalysis\<close> consult:
  the environment variable, the \<^verbatim>\<open>FileReader\<close> (\<open>None\<close> when it fails), the extraction
  service (it throws, or answers with a response whose \<^verbatim>\<open>text\<close> may be missing),
  \<^verbatim>\<open>JSON.parse\<close>, the identifiers \<^verbatim>\<open>crypto.randomUUID\<close> hands out, in call order, and the
  outcome of the dynamic import of the result component (\<open>None\<close> when it loads).
\<close>

record env =
  GEMINI_API_KEY :: "string option"
  readAsDataURL :: "blob \<Rightarrow> string option"
  generateContent :: "request \<Rightarrow> thrown + string option"
  JSON_parse :: "string \<Rightarrow> thrown + parsed"
  randomUUID :: "nat \<Rightarrow> string"
  importResultDisplay :: "thrown option"

text \<open>The observable actions of a call, in order.\<close>

datatype effect = ReadFile blob | NetworkCall request | ConsoleError

text \<open>\<^verbatim>\<open>s.split(sep)\<close> for a one-character separator.\<close>

fun split :: "char \<Rightarrow> string \<Rightarrow> string list" where
  "split sep [] = [[]]"
| "split sep (c # cs) =
     (if c = sep then [] # split sep cs
      else (case split sep cs of [] \<Rightarrow> [[c]] | p # ps \<Rightarrow> (c # p) # ps))"

text \<open>
  \<^verbatim>\<open>fileToBase64\<close>: the promise rejects when the reader fails, and otherwise resolves
  with \<^verbatim>\<open>result.split(',')[1]\<close>, which is \<^verbatim>\<open>undefined\<close> when the result holds no comma.
\<close>

definition fileToBase64 :: "env \<Rightarrow> blob \<Rightarrow> thrown + string option" where
  "fileToBase64 e file =
     (case readAsDataURL e file of
        None \<Rightarrow> Inl ProgressEvent
      | Some result \<Rightarrow>
          Inr (case split CHR '','' result of a # b # rest \<Rightarrow> Some b | _ \<Rightarrow> None))"

text \<open>
  \<^verbatim>\<open>Promise.all\<close> over the conversions of all files: every conversion is started, and the
  whole fails when one of them does.
\<close>

fun allBase64 :: "env \<Rightarrow> blob list \<Rightarrow> thrown + string option list" where
  "allBase64 e [] = Inr []"
| "allBase64 e (f # fs) =
     (case (fileToBase64 e f, allBase64 e fs) of
        (Inr b, Inr bs) \<Rightarrow> Inr (b # bs)
      | (Inl x, _) \<Rightarrow> Inl x
      | (_, Inl x) \<Rightarrow> Inl x)"

text \<open>The part of \<^verbatim>\<open>analyzeLabExam\<close> headed "Prepare contents based on input type".\<close>

definition prepareParts :: "env \<Rightarrow> input \<Rightarrow> (thrown + part list) \<times> effect list" where
  "prepareParts e inp =
     (case inp of
        Text s \<Rightarrow>
          (Inr [TextPart (''Analyze the following raw text from a medical document:\<newline>\<newline>'' @ s)],
           [])
      | AudioBlob b \<Rightarrow>
          (case fileToBase64 e b of
             Inl x \<Rightarrow> (Inl x, [ReadFile b])
           | Inr base64 \<Rightarrow>
               (Inr [InlineData (or_else (Some (blob_type b)) ''audio/wav'') base64,
                     TextPart (''TRANSCRIPTION & ANALYSIS: The user has recorded an audio '' @
                       ''reading a medical exam. Transcribe precisely and analyze.'')],
                [ReadFile b]))
      | SingleFile f \<Rightarrow> (Inr [], [])
      | Files fs \<Rightarrow>
          (case allBase64 e fs of
             Inl x \<Rightarrow> (Inl x, map ReadFile fs)
           | Inr base64Results \<Rightarrow>
               (Inr (map (\<lambda>(f, base64). InlineData (blob_type f) base64) (zip fs base64Results)),
                map ReadFile fs)))"

definition buildRequest ::
  "part list \<Rightarrow> CustomAbbreviation list \<Rightarrow> AnalysisPreferences \<Rightarrow> request" where
  "buildRequest ps customAbbreviations preferences =
     \<lparr> parts = ps @
         [TextPart (''Analyze these medical documents. Identify patients. Classify as LAB '' @
            ''or NON_LAB and extract data accordingly.'')],
       referenceValueRule =
         (if showReferenceValues preferences
          then ''- **LAB REFS**: Include reference ranges in '' @ [CHR 0x27] @ ''referenceRange'' @
               [CHR 0x27] @ ''.''
          else ''- **LAB REFS**: Leave '' @ [CHR 0x27] @ ''referenceRange'' @ [CHR 0x27] @
               '' empty.''),
       customRulesText =
         (if customAbbreviations \<noteq> []
          then ''\<newline>    - **CUSTOM USER ABBREVIATIONS (PRIORITY)**:\<newline>'' @
               ''       If it is a LAB EXAM, use these:\<newline>       '' @
               join ''\<newline>       ''
                 (map (\<lambda>ca. ''- '' @ [CHR 0x22] @ ca_examName ca @ [CHR 0x22] @
                        '' MUST be abbreviated as '' @ [CHR 0x22] @ ca_abbreviation ca @
                        [CHR 0x22])
                    customAbbreviations) @
               ''\<newline>       ''
          else []) \<rparr>"

text \<open>The callback of \<^verbatim>\<open>resultsArray.map\<close>, given the identifier it draws.\<close>

definition normalize :: "string \<Rightarrow> patientData \<Rightarrow> AnalyzedExam" where
  "normalize uuid pd =
     (let summaryString =
        (case (raw_category pd, raw_nonLabData pd) of
           (Some NON_LAB, Some nl) \<Rightarrow> examTitle nl @ '': '' @ impression nl
         | _ \<Rightarrow>
            (case labResults pd of
               Some rs \<Rightarrow> join '' / '' (map (\<lambda>r. abbreviation r @ '' '' @ value r) rs)
             | None \<Rightarrow> ''Sem dados''))
      in \<lparr> id' = uuid,
           patientInitials = or_else (raw_patientInitials pd) ''N/A'',
           patientAge = or_else (raw_patientAge pd) [],
           collectionDate = Some (or_else (raw_collectionDate pd) []),
           category = (case raw_category pd of None \<Rightarrow> LAB | Some c \<Rightarrow> c),
           results = (case labResults pd of None \<Rightarrow> [] | Some rs \<Rightarrow> rs),
           nonLabData = raw_nonLabData pd,
           rawSummary = summaryString \<rparr>)"

text \<open>The body of the \<^verbatim>\<open>try\<close> block, after the request has been built.\<close>

definition tryBlock :: "env \<Rightarrow> request \<Rightarrow> thrown + AnalyzedExam list" where
  "tryBlock e req =
     (case generateContent e req of
        Inl x \<Rightarrow> Inl x
      | Inr jsonText \<Rightarrow>
          if \<not> truthy jsonText then Inl (Error ''Falha ao gerar resposta.'')
          else (case JSON_parse e (the jsonText) of
                  Inl x \<Rightarrow> Inl x
                | Inr parsedData \<Rightarrow>
                    let resultsArray =
                          (case parsedData of PArray xs \<Rightarrow> xs | PObject x \<Rightarrow> [x])
                    in Inr (map (\<lambda>(i, patientData). normalize (randomUUID e i) patientData)
                              (zip [0 ..< length resultsArray] resultsArray))))"

definition analyzeLabExam ::
  "env \<Rightarrow> input \<Rightarrow> CustomAbbreviation list \<Rightarrow> AnalysisPreferences
   \<Rightarrow> (thrown + AnalyzedExam list) \<times> effect list" where
  "analyzeLabExam e inp customAbbreviations preferences =
     (if \<not> truthy (GEMINI_API_KEY e)
      then (Inl (Error (''Chave de API n'' @ [CHR 0xC3, CHR 0xA3] @ ''o configurada.'')), [])
      else
        (case prepareParts e inp of
           (Inl x, reads) \<Rightarrow> (Inl x, reads)
         | (Inr ps, reads) \<Rightarrow>
             let req = buildRequest ps customAbbreviations preferences
             in (case tryBlock e req of
                   Inr exams \<Rightarrow> (Inr exams, reads @ [NetworkCall req])
                 | Inl x \<Rightarrow>
                     (Inl (Error (''N'' @ [CHR 0xC3, CHR 0xA3] @ ''o foi poss'' @
                        [CHR 0xC3, CHR 0xAD] @ ''vel processar o documento. Tente novamente.'')),
                      reads @ [NetworkCall req, ConsoleError]))))"

section \<open>Session state (App)\<close>

datatype status = IDLE | ANALYZING | SUCCESS | ERROR

record AnalysisState =
  status :: status
  data :: "AnalyzedExam list option"
  error :: "string option"

text \<open>The component state that the handlers below read and write.\<close>

record app =
  state :: AnalysisState
  queuedFiles :: "blob list"
  customAbbreviations :: "CustomAbbreviation list"
  preferences :: AnalysisPreferences

text \<open>
  \<^verbatim>\<open>processAnalysis\<close> calls \<^verbatim>\<open>setState\<close> twice: once before the extraction, once after it
  (in the \<^verbatim>\<open>try\<close> block or in the \<^verbatim>\<open>catch\<close>). The result lists the component state after
  each of the two, in order; each \<^verbatim>\<open>setState\<close> replaces the whole \<^verbatim>\<open>AnalysisState\<close>.
\<close>

definition processAnalysis :: "env \<Rightarrow> input \<Rightarrow> AnalyzedExam list option \<Rightarrow> app \<Rightarrow> app list" where
  "processAnalysis e inp existingData a =
     (let a1 = a\<lparr>state := \<lparr>status = ANALYZING, data = existingData, error = None\<rparr>\<rparr>;
          caught = (\<lambda>x. a1\<lparr>state := \<lparr>status = ERROR, data = None,
                      error = Some (or_else (message x)
                        (''Ocorreu um erro desconhecido ao processar o exame.''))\<rparr>\<rparr>)
      in case fst (analyzeLabExam e inp (customAbbreviations a) (preferences a)) of
           Inl x \<Rightarrow> [a1, caught x]
         | Inr newResultsArray \<Rightarrow>
             let finalData = (case existingData of
                                Some old \<Rightarrow> old @ newResultsArray
                              | None \<Rightarrow> newResultsArray)
             in (case importResultDisplay e of
                   Some x \<Rightarrow> [a1, caught x]
                 | None \<Rightarrow>
                     [a1, a1\<lparr>state := \<lparr>status = SUCCESS, data = Some finalData, error = None\<rparr>,
                            queuedFiles := (case inp of Files fs \<Rightarrow> [] | _ \<Rightarrow> queuedFiles a1)\<rparr>]))"

definition handleRemoveExam :: "string \<Rightarrow> AnalysisState \<Rightarrow> AnalysisState" where
  "handleRemoveExam i prev =
     (case data prev of
        None \<Rightarrow> prev
      | Some d \<Rightarrow>
          let newData = filter (\<lambda>item. id' item \<noteq> i) d
          in if newData = [] then prev\<lparr>status := IDLE, data := None\<rparr>
             else prev\<lparr>data := Some newData\<rparr>)"

definition handleReset :: "app \<Rightarrow> app" where
  "handleReset a = a\<lparr>state := \<lparr>status = IDLE, data = None, error = None\<rparr>, queuedFiles := []\<rparr>"

text \<open>The state the component starts with.\<close>

definition initialState :: AnalysisState where
  "initialState = \<lparr>status = IDLE, data = None, error = None\<rparr>"

section \<open>Example inputs\<close>

definition priorExam :: AnalyzedExam where
  "priorExam =
     \<lparr> id' = ''id-prior'', patientInitials = ''MJR'', patientAge = ''45 anos'',
       collectionDate = Some ''01/02'', category = LAB,
       results = [\<lparr>abbreviation = ''Hb'', value = ''12.5'', referenceRange = None,
                   abnormality = NORMAL\<rparr>],
       nonLabData = None, rawSummary = ''Hb 12.5'' \<rparr>"

definition undatedExam :: AnalyzedExam where
  "undatedExam =
     \<lparr> id' = ''id-undated'', patientInitials = ''ABC'', patientAge = [],
       collectionDate = Some [], category = LAB,
       results = [\<lparr>abbreviation = ''Hb'', value = ''13.2'', referenceRange = Some ''12-16'',
                   abnormality = NORMAL\<rparr>,
                  \<lparr>abbreviation = ''Na'', value = ''150'', referenceRange = None,
                   abnormality = HIGH\<rparr>,
                  \<lparr>abbreviation = ''K'', value = ''3.1'', referenceRange = None,
                   abnormality = LOW\<rparr>],
       nonLabData = None, rawSummary = ''Hb 13.2 / Na 150 / K 3.1'' \<rparr>"

definition reportExam :: AnalyzedExam where
  "reportExam =
     \<lparr> id' = ''id-report'', patientInitials = ''XYZ'', patientAge = ''60 anos'',
       collectionDate = Some ''05/06'', category = NON_LAB,
       results = [\<lparr>abbreviation = ''Na'', value = ''150'', referenceRange = None,
                   abnormality = HIGH\<rparr>],
       nonLabData = Some \<lparr>examTitle = ''TC de Torax'', mainFindings = [''Nodulo''],
                          impression = ''Sugere controle''\<rparr>,
       rawSummary = ''TC de Torax: Sugere controle'' \<rparr>"

definition emptyObject :: patientData where
  "emptyObject =
     \<lparr> raw_patientInitials = None, raw_patientAge = None, raw_collectionDate = None,
       raw_category = None, labResults = None, raw_nonLabData = None \<rparr>"

text \<open>
  An environment in which the key is set, every file can be read, the service answers with
  a single object (not an array), and the result component loads.
\<close>

definition answeringEnv :: env where
  "answeringEnv =
     \<lparr> GEMINI_API_KEY = Some ''key'',
       readAsDataURL = (\<lambda>b. Some (''data:'' @ blob_type b @ '';base64,'' @ blob_bytes b)),
       generateContent = (\<lambda>req. Inr (Some ''{ }'')),
       JSON_parse = (\<lambda>s. if s = ''{ }'' then Inr (PObject (emptyObject\<lparr>raw_category := Some LAB\<rparr>))
                          else Inl (Error ''Unexpected token'')),
       randomUUID = (\<lambda>n. ''id-'' @ String_of_nat n),
       importResultDisplay = None \<rparr>"

text \<open>The same environment with the network down.\<close>

definition failingEnv :: env where
  "failingEnv = answeringEnv\<lparr>generateContent := (\<lambda>req. Inl (Error ''Failed to fetch''))\<rparr>"

definition startApp :: app where
  "startApp =
     \<lparr> state = initialState, queuedFiles = [], customAbbreviations = [],
       preferences = \<lparr>showReferenceValues = False, groupDates = False\<rparr> \<rparr>"

section \<open>Properties of the category lookup\<close>

lemma firstCategory_listed:
  "distinct (concat (map snd tbl)) \<Longrightarrow> (cat, items) \<in> set tbl \<Longrightarrow> a \<in> set items
   \<Longrightarrow> firstCategory tbl a = cat"
proof (induction tbl)
  case Nil
  then show ?case by simp
next
  case (Cons e tbl)
  obtain c its where e: "e = (c, its)" by (cases e)
  show ?case
  proof (cases "a \<in> set its")
    case True
    with Cons.prems e show ?thesis by (auto dest!: split_list)
  next
    case False
    with Cons e show ?thesis by auto
  qed
qed

lemma firstCategory_unlisted:
  "a \<notin> set (concat (map snd tbl)) \<Longrightarrow> firstCategory tbl a = ''OUTROS''"
  by (induction tbl) auto

lemma firstCategory_in: "firstCategory tbl a \<in> set (map fst tbl @ [''OUTROS''])"
proof (induction tbl)
  case Nil
  then show ?case by simp
next
  case (Cons e tbl)
  obtain c its where e: "e = (c, its)" by (cases e)
  from Cons show ?case unfolding e by (cases "a \<in> set its") simp_all
qed

lemma SYSTEM_CATEGORIES_distinct: "distinct (concat (map snd SYSTEM_CATEGORIES))"
  unfolding SYSTEM_CATEGORIES_def by simp

lemma categoriesOrder_distinct: "distinct categoriesOrder"
  unfolding categoriesOrder_def SYSTEM_CATEGORIES_def by simp

lemma getCategory_in_order: "getCategory a \<in> set categoriesOrder"
  unfolding getCategory_def categoriesOrder_def by (rule firstCategory_in)

text \<open>
  Claim C5. Every abbreviation listed in \<open>SYSTEM_CATEGORIES\<close> is mapped by \<open>getCategory\<close>
  to the category it is listed under, and every abbreviation that is not listed is mapped
  to the catch-all category \<open>OUTROS\<close>.
\<close>

theorem getCategory_coverage:
  "(\<forall>(cat, items) \<in> set SYSTEM_CATEGORIES. \<forall>a \<in> set items. getCategory a = cat) \<and>
   (\<forall>a. a \<notin> set (concat (map snd SYSTEM_CATEGORIES)) \<longrightarrow> getCategory a = ''OUTROS'')"
  unfolding getCategory_def
  using firstCategory_listed [OF SYSTEM_CATEGORIES_distinct] firstCategory_unlisted
  by blast

theorem getCategory_coverage_witness:
  "(''ELETR'' @ [CHR 0xC3, CHR 0x93] @ ''LITOS'',
      [''Na'', ''K'', ''Ca'', ''Mg'', ''P'', ''Cl'', ''C'' @ [CHR 0xC3, CHR 0xA1] @ ''lcio Ion''])
      \<in> set SYSTEM_CATEGORIES \<and>
   getCategory ''Na'' = ''ELETR'' @ [CHR 0xC3, CHR 0x93] @ ''LITOS'' \<and>
   ''Zn'' \<notin> set (concat (map snd SYSTEM_CATEGORIES)) \<and>
   getCategory ''Zn'' = ''OUTROS''"
proof -
  have listed: "(''ELETR'' @ [CHR 0xC3, CHR 0x93] @ ''LITOS'',
      [''Na'', ''K'', ''Ca'', ''Mg'', ''P'', ''Cl'', ''C'' @ [CHR 0xC3, CHR 0xA1] @ ''lcio Ion''])
    \<in> set SYSTEM_CATEGORIES"
    unfolding SYSTEM_CATEGORIES_def by simp
  have unlisted: "''Zn'' \<notin> set (concat (map snd SYSTEM_CATEGORIES))"
    unfolding SYSTEM_CATEGORIES_def by simp
  from getCategory_coverage listed unlisted show ?thesis by fastforce
qed

section \<open>Properties of the summary texts\<close>

subsection \<open>Grouping by category\<close>

lemma pushGrouped_apply:
  "pushGrouped item g c =
     (if c = getCategory (abbreviation item)
      then Some ((case g c of None \<Rightarrow> [] | Some xs \<Rightarrow> xs) @ [item]) else g c)"
  by (auto simp: pushGrouped_def Let_def)

lemma fold_pushGrouped:
  "fold pushGrouped rs g0 c =
   (let g = filter (\<lambda>i. getCategory (abbreviation i) = c) rs
    in case g0 c of None \<Rightarrow> (if g = [] then None else Some g) | Some xs \<Rightarrow> Some (xs @ g))"
proof (induction rs arbitrary: g0)
  case Nil
  then show ?case by (simp split: option.splits)
next
  case (Cons r rs)
  have "fold pushGrouped (r # rs) g0 c = fold pushGrouped rs (pushGrouped r g0) c"
    by simp
  also have "\<dots> = (let g = filter (\<lambda>i. getCategory (abbreviation i) = c) rs
      in case pushGrouped r g0 c of None \<Rightarrow> (if g = [] then None else Some g)
         | Some xs \<Rightarrow> Some (xs @ g))"
    by (rule Cons.IH)
  also have "\<dots> = (let g = filter (\<lambda>i. getCategory (abbreviation i) = c) (r # rs)
      in case g0 c of None \<Rightarrow> (if g = [] then None else Some g) | Some xs \<Rightarrow> Some (xs @ g))"
    by (simp add: pushGrouped_apply Let_def split: option.splits)
  finally show ?case .
qed

text \<open>Each group holds the results of its category, in the order of the record.\<close>

lemma groupedResults_filter:
  "groupedResults rs c =
     (let g = filter (\<lambda>i. getCategory (abbreviation i) = c) rs
      in if g = [] then None else Some g)"
  unfolding groupedResults_def fold_pushGrouped by simp

lemma fold_append_concat:
  "fold (\<lambda>c body. body @ f c) cs acc = acc @ concat (map f cs)"
  by (induction cs arbitrary: acc) auto

lemma fullTextBody_lines:
  "fullTextBody rs =
     concat (map (\<lambda>c. let g = filter (\<lambda>i. getCategory (abbreviation i) = c) rs
                      in if g = [] then []
                         else (if c = ''OUTROS'' then [] else c @ '': '') @
                              join '' / '' (map lineItem g) @ ''\<newline>'')
               categoriesOrder)"
proof -
  have "(\<lambda>c body. case groupedResults rs c of
           None \<Rightarrow> body
         | Some g \<Rightarrow>
             if g = [] then body
             else let lineItems = join '' / '' (map lineItem g);
                      prefix' = (if c = ''OUTROS'' then [] else c @ '': '')
                  in body @ prefix' @ lineItems @ ''\<newline>'')
        = (\<lambda>c body. body @
             (let g = filter (\<lambda>i. getCategory (abbreviation i) = c) rs
              in if g = [] then []
                 else (if c = ''OUTROS'' then [] else c @ '': '') @
                      join '' / '' (map lineItem g) @ ''\<newline>''))"
    by (intro ext) (simp add: groupedResults_filter Let_def)
  then show ?thesis
    unfolding fullTextBody_def by (simp add: fold_append_concat)
qed

lemma concat_single:
  "distinct cs \<Longrightarrow> c \<in> set cs \<Longrightarrow> concat (map (\<lambda>x. if x = c then y else []) cs) = y"
  by (induction cs) auto

lemma fullTextBody_single:
  "fullTextBody [item] =
     (if getCategory (abbreviation item) = ''OUTROS'' then []
      else getCategory (abbreviation item) @ '': '') @ lineItem item @ ''\<newline>''"
proof -
  have "(\<lambda>c. let g = filter (\<lambda>i. getCategory (abbreviation i) = c) [item]
            in if g = [] then []
               else (if c = ''OUTROS'' then [] else c @ '': '') @
                    join '' / '' (map lineItem g) @ ''\<newline>'') =
      (\<lambda>x. if x = getCategory (abbreviation item)
           then (if getCategory (abbreviation item) = ''OUTROS'' then []
                 else getCategory (abbreviation item) @ '': '') @ lineItem item @ ''\<newline>''
           else [])"
    by (intro ext) simp
  then show ?thesis
    unfolding fullTextBody_lines
    by (simp only: concat_single [OF categoriesOrder_distinct getCategory_in_order])
qed

subsection \<open>Decimal separator\<close>

lemma formatValue_no_dot: "CHR ''.'' \<notin> set (formatValue v)"
  by (auto simp: formatValue_def)

lemma formatValue_length: "length (formatValue v) = length v"
  by (simp add: formatValue_def)

lemma formatValue_nth:
  "i < length v \<Longrightarrow> formatValue v ! i = (if v ! i = CHR ''.'' then CHR '','' else v ! i)"
  by (simp add: formatValue_def)

lemma formatValue_unchanged: "CHR ''.'' \<notin> set v \<Longrightarrow> formatValue v = v"
  unfolding formatValue_def by (induction v) auto

lemma dateStr_update [simp]: "dateStr t (exam\<lparr>category := c, results := rs\<rparr>) = dateStr t exam"
  by (simp add: dateStr_def)

lemma join_contains: "x \<in> set xs \<Longrightarrow> \<exists>p q. join sep xs = p @ x @ q"
proof (induction sep xs rule: join.induct)
  case (1 sep)
  then show ?case by simp
next
  case (2 sep y)
  then have "join sep [y] = [] @ x @ []" by simp
  then show ?case by blast
next
  case (3 sep y z zs)
  show ?case
  proof (cases "x = y")
    case True
    then have "join sep (y # z # zs) = [] @ x @ (sep @ join sep (z # zs))" by simp
    then show ?thesis by blast
  next
    case False
    with 3 obtain p q where "join sep (z # zs) = p @ x @ q" by auto
    then have "join sep (y # z # zs) = (y @ sep @ p) @ x @ q" by simp
    then show ?thesis by blast
  qed
qed

lemma fullTextBody_contains:
  assumes "item \<in> set rs"
  shows "\<exists>pre post. fullTextBody rs = pre @ lineItem item @ post"
proof -
  define c where "c = getCategory (abbreviation item)"
  define L where "L = (\<lambda>c. let g = filter (\<lambda>i. getCategory (abbreviation i) = c) rs
                      in if g = [] then []
                         else (if c = ''OUTROS'' then [] else c @ '': '') @
                              join '' / '' (map lineItem g) @ ''\<newline>'')"
  have body: "fullTextBody rs = concat (map L categoriesOrder)"
    unfolding L_def by (rule fullTextBody_lines)
  have "c \<in> set categoriesOrder"
    unfolding c_def by (rule getCategory_in_order)
  then obtain cs1 cs2 where cs: "categoriesOrder = cs1 @ c # cs2"
    by (auto dest: split_list)
  from assms have "lineItem item \<in>
      set (map lineItem (filter (\<lambda>i. getCategory (abbreviation i) = c) rs))"
    by (simp add: c_def)
  from join_contains [OF this] obtain p q where
    pq: "join '' / '' (map lineItem (filter (\<lambda>i. getCategory (abbreviation i) = c) rs))
           = p @ lineItem item @ q"
    by blast
  from assms have ne: "filter (\<lambda>i. getCategory (abbreviation i) = c) rs \<noteq> []"
    by (auto simp: c_def filter_empty_conv)
  have "L c = ((if c = ''OUTROS'' then [] else c @ '': '') @ p) @ lineItem item @
              (q @ ''\<newline>'')"
    unfolding L_def using ne by (simp add: pq)
  then have "fullTextBody rs =
      (concat (map L cs1) @ (if c = ''OUTROS'' then [] else c @ '': '') @ p) @
      lineItem item @ (q @ ''\<newline>'' @ concat (map L cs2))"
    by (simp add: body cs)
  then show ?thesis by blast
qed

lemma lineItem_unfold:
  "lineItem = (\<lambda>item. abbreviation item @ '' '' @ formatValue (value item) @
                 (if truthy (referenceRange item)
                  then '' (Ref: '' @ the (referenceRange item) @ '')'' else []))"
  by (intro ext) (simp add: lineItem_def)

lemma full_text_lab:
  assumes "category exam = LAB"
  shows "fullClipboardText (PatientCard t exam) =
     patientInitials exam @ '' - Lab ('' @ dateStr t exam @ ''):\<newline>'' @
     trim (concat (map
       (\<lambda>c. let g = filter (\<lambda>i. getCategory (abbreviation i) = c) (results exam)
            in if g = [] then []
               else (if c = ''OUTROS'' then [] else c @ '': '') @
                    join '' / ''
                      (map (\<lambda>item. abbreviation item @ '' '' @ formatValue (value item) @
                              (if truthy (referenceRange item)
                               then '' (Ref: '' @ the (referenceRange item) @ '')'' else []))
                         g) @
                    ''\<newline>'')
       categoriesOrder))"
  using assms unfolding PatientCard_def fullTextBody_lines lineItem_unfold by simp

text \<open>
  Claim C8. In the full summary, the value of a result is shown with every dot replaced by a
  comma and every other character kept (\<open>12.5\<close> becomes \<open>12,5\<close>); a value without a dot
  is shown unchanged. This holds for every result of every \<open>LAB\<close> record: the full summary
  is the heading followed by the trimmed body, the body has one line per category that
  has results, in the order of \<open>categoriesOrder\<close>, and the line shows each result of the
  category as its abbreviation, its value so formatted and its optional reference range,
  joined by \<open>" / "\<close>. So each result of the record occurs in the body with its value
  formatted. For a record with a single result the summary is that one line.
\<close>

theorem full_summary_decimal_comma:
  "formatValue ''12.5'' = ''12,5'' \<and>
   CHR ''.'' \<notin> set (formatValue v) \<and>
   length (formatValue v) = length v \<and>
   (\<forall>i < length v. formatValue v ! i = (if v ! i = CHR ''.'' then CHR '','' else v ! i)) \<and>
   (CHR ''.'' \<notin> set v \<longrightarrow> formatValue v = v) \<and>
   fullClipboardText (PatientCard t (exam\<lparr>category := LAB, results := [item]\<rparr>)) =
     patientInitials exam @ '' - Lab ('' @ dateStr t exam @ ''):\<newline>'' @
     trim ((if getCategory (abbreviation item) = ''OUTROS'' then []
            else getCategory (abbreviation item) @ '': '') @
           abbreviation item @ '' '' @ formatValue (value item) @
           (if truthy (referenceRange item)
            then '' (Ref: '' @ the (referenceRange item) @ '')'' else []) @ ''\<newline>'') \<and>
   (category exam = LAB \<longrightarrow>
      fullClipboardText (PatientCard t exam) =
        patientInitials exam @ '' - Lab ('' @ dateStr t exam @ ''):\<newline>'' @
        trim (concat (map
          (\<lambda>c. let g = filter (\<lambda>i. getCategory (abbreviation i) = c) (results exam)
               in if g = [] then []
                  else (if c = ''OUTROS'' then [] else c @ '': '') @
                       join '' / ''
                         (map (\<lambda>r. abbreviation r @ '' '' @ formatValue (value r) @
                                 (if truthy (referenceRange r)
                                  then '' (Ref: '' @ the (referenceRange r) @ '')'' else []))
                            g) @
                       ''\<newline>'')
          categoriesOrder))) \<and>
   (\<forall>r \<in> set (results exam). \<exists>pre post.
      fullTextBody (results exam) =
        pre @ abbreviation r @ '' '' @ formatValue (value r) @
        (if truthy (referenceRange r)
         then '' (Ref: '' @ the (referenceRange r) @ '')'' else []) @ post)"
proof -
  have example: "formatValue ''12.5'' = ''12,5''" by (simp add: formatValue_def)
  have single: "fullClipboardText (PatientCard t (exam\<lparr>category := LAB, results := [item]\<rparr>)) =
     patientInitials exam @ '' - Lab ('' @ dateStr t exam @ ''):\<newline>'' @
     trim ((if getCategory (abbreviation item) = ''OUTROS'' then []
            else getCategory (abbreviation item) @ '': '') @
           abbreviation item @ '' '' @ formatValue (value item) @
           (if truthy (referenceRange item)
            then '' (Ref: '' @ the (referenceRange item) @ '')'' else []) @ ''\<newline>'')"
    by (simp add: PatientCard_def fullTextBody_single lineItem_def)
  have every: "\<forall>r \<in> set (results exam). \<exists>pre post.
      fullTextBody (results exam) =
        pre @ abbreviation r @ '' '' @ formatValue (value r) @
        (if truthy (referenceRange r)
         then '' (Ref: '' @ the (referenceRange r) @ '')'' else []) @ post"
  proof
    fix r assume "r \<in> set (results exam)"
    from fullTextBody_contains [OF this] obtain pre post
      where "fullTextBody (results exam) = pre @ lineItem r @ post" by blast
    then have "fullTextBody (results exam) =
        pre @ abbreviation r @ '' '' @ formatValue (value r) @
        (if truthy (referenceRange r)
         then '' (Ref: '' @ the (referenceRange r) @ '')'' else []) @ post"
      by (simp add: lineItem_def)
    then show "\<exists>pre post. fullTextBody (results exam) =
        pre @ abbreviation r @ '' '' @ formatValue (value r) @
        (if truthy (referenceRange r)
         then '' (Ref: '' @ the (referenceRange r) @ '')'' else []) @ post"
      by blast
  qed
  show ?thesis
    apply (intro conjI impI)
    subgoal by (rule example)
    subgoal by (rule formatValue_no_dot)
    subgoal by (rule formatValue_length)
    subgoal by (simp add: formatValue_nth)
    subgoal by (rule formatValue_unchanged)
    subgoal by (rule single)
    subgoal by (rule full_text_lab)
    subgoal by (rule every)
    done
qed

theorem full_summary_decimal_comma_witness:
  "CHR ''.'' \<notin> set ''150'' \<and> formatValue ''150'' = ''150'' \<and>
   category undatedExam = LAB \<and>
   fullClipboardText (PatientCard \<lparr>getDate = 3, getMonth = 10\<rparr> undatedExam) =
     ''ABC - Lab (03/11):\<newline>HEMOGRAMA: Hb 13,2 (Ref: 12-16)\<newline>ELETR'' @
     [CHR 0xC3, CHR 0x93] @ ''LITOS: Na 150 / K 3,1'' \<and>
   fullClipboardText (PatientCard \<lparr>getDate = 3, getMonth = 10\<rparr> priorExam) =
     ''MJR - Lab (01/02):\<newline>HEMOGRAMA: Hb 12,5''"
proof -
  have lab: "category undatedExam = LAB"
    by (simp add: undatedExam_def)
  have nodot: "CHR ''.'' \<notin> set ''150''" by simp
  have today: "dateStr \<lparr>getDate = 3, getMonth = 10\<rparr> undatedExam = ''03/11''"
    by (simp add: dateStr_def or_else_def undatedExam_def ddmm_def padStart_def
        String_of_nat.simps digit_def)
  have trimmed:
    "trim (''HEMOGRAMA: Hb 13,2 (Ref: 12-16)\<newline>ELETR'' @ [CHR 0xC3, CHR 0x93] @
           ''LITOS: Na 150 / K 3,1\<newline>'') =
     ''HEMOGRAMA: Hb 13,2 (Ref: 12-16)\<newline>ELETR'' @ [CHR 0xC3, CHR 0x93] @
     ''LITOS: Na 150 / K 3,1''"
    "trim ''HEMOGRAMA: Hb 12,5\<newline>'' = ''HEMOGRAMA: Hb 12,5''"
    by (simp_all add: trim_def whiteSpace_def stripLeading.simps)
  have body: "concat (map
          (\<lambda>c. let g = filter (\<lambda>i. getCategory (abbreviation i) = c) (results undatedExam)
               in if g = [] then []
                  else (if c = ''OUTROS'' then [] else c @ '': '') @
                       join '' / ''
                         (map (\<lambda>r. abbreviation r @ '' '' @ formatValue (value r) @
                                 (if truthy (referenceRange r)
                                  then '' (Ref: '' @ the (referenceRange r) @ '')'' else []))
                            g) @
                       ''\<newline>'')
          categoriesOrder) =
     ''HEMOGRAMA: Hb 13,2 (Ref: 12-16)\<newline>ELETR'' @ [CHR 0xC3, CHR 0x93] @
     ''LITOS: Na 150 / K 3,1\<newline>''"
    by (simp add: undatedExam_def categoriesOrder_def getCategory_def SYSTEM_CATEGORIES_def
        formatValue_def)
  from full_summary_decimal_comma [where v = "''150''"
      and t = "\<lparr>getDate = 3, getMonth = 10\<rparr>" and exam = undatedExam] lab
  have "fullClipboardText (PatientCard \<lparr>getDate = 3, getMonth = 10\<rparr> undatedExam) =
        patientInitials undatedExam @ '' - Lab ('' @
        dateStr \<lparr>getDate = 3, getMonth = 10\<rparr> undatedExam @ ''):\<newline>'' @
        trim (concat (map
          (\<lambda>c. let g = filter (\<lambda>i. getCategory (abbreviation i) = c) (results undatedExam)
               in if g = [] then []
                  else (if c = ''OUTROS'' then [] else c @ '': '') @
                       join '' / ''
                         (map (\<lambda>r. abbreviation r @ '' '' @ formatValue (value r) @
                                 (if truthy (referenceRange r)
                                  then '' (Ref: '' @ the (referenceRange r) @ '')'' else []))
                            g) @
                       ''\<newline>'')
          categoriesOrder))"
    by blast
  then have several:
    "fullClipboardText (PatientCard \<lparr>getDate = 3, getMonth = 10\<rparr> undatedExam) =
        patientInitials undatedExam @ '' - Lab ('' @ ''03/11'' @ ''):\<newline>'' @
        (''HEMOGRAMA: Hb 13,2 (Ref: 12-16)\<newline>ELETR'' @ [CHR 0xC3, CHR 0x93] @
         ''LITOS: Na 150 / K 3,1'')"
    by (simp only: today body trimmed)
  have "priorExam = priorExam\<lparr>category := LAB, results :=
      [\<lparr>abbreviation = ''Hb'', value = ''12.5'', referenceRange = None, abnormality = NORMAL\<rparr>]\<rparr>"
    by (simp add: priorExam_def)
  with full_summary_decimal_comma [where v = "''150''"
      and t = "\<lparr>getDate = 3, getMonth = 10\<rparr>"
      and exam = priorExam and item = "\<lparr>abbreviation = ''Hb'', value = ''12.5'',
        referenceRange = None, abnormality = NORMAL\<rparr>"]
  have single: "fullClipboardText (PatientCard \<lparr>getDate = 3, getMonth = 10\<rparr> priorExam) =
     ''MJR - Lab (01/02):\<newline>HEMOGRAMA: Hb 12,5''"
    by (simp add: trimmed priorExam_def dateStr_def or_else_def getCategory_def
        SYSTEM_CATEGORIES_def formatValue_def)
  from several single lab nodot show ?thesis
    by (simp add: undatedExam_def formatValue_def)
qed

subsection \<open>Abnormal-only summary\<close>

text \<open>
  Claim C6. For a \<open>LAB\<close> record whose results are \<open>Hb\<close> (normal), \<open>Na\<close> (high) and \<open>K\<close>
  (low), whatever their values, the abnormal results are the \<open>Na\<close> and \<open>K\<close> entries, and
  the abnormal-only summary is its heading followed by the \<open>Na\<close> entry with an up arrow
  and the \<open>K\<close> entry with a down arrow, joined by \<open>" / "\<close>; nothing of the \<open>Hb\<close> entry is
  in it.
\<close>

theorem abnormal_summary_example:
  "abnormalResults (exam\<lparr>category := LAB, results :=
       [\<lparr>abbreviation = ''Hb'', value = va, referenceRange = ra, abnormality = NORMAL\<rparr>,
        \<lparr>abbreviation = ''Na'', value = vb, referenceRange = rb, abnormality = HIGH\<rparr>,
        \<lparr>abbreviation = ''K'', value = vc, referenceRange = rc, abnormality = LOW\<rparr>]\<rparr>) =
     [\<lparr>abbreviation = ''Na'', value = vb, referenceRange = rb, abnormality = HIGH\<rparr>,
      \<lparr>abbreviation = ''K'', value = vc, referenceRange = rc, abnormality = LOW\<rparr>] \<and>
   abnormalClipboardText (PatientCard t (exam\<lparr>category := LAB, results :=
       [\<lparr>abbreviation = ''Hb'', value = va, referenceRange = ra, abnormality = NORMAL\<rparr>,
        \<lparr>abbreviation = ''Na'', value = vb, referenceRange = rb, abnormality = HIGH\<rparr>,
        \<lparr>abbreviation = ''K'', value = vc, referenceRange = rc, abnormality = LOW\<rparr>]\<rparr>)) =
     patientInitials exam @ '' - Lab ('' @ dateStr t exam @ '') - ALTERA'' @
     [CHR 0xC3, CHR 0x87, CHR 0xC3, CHR 0x95] @ ''ES: '' @
     ''Na '' @ formatValue vb @ '' '' @ [CHR 0xE2, CHR 0x86, CHR 0x91] @ '' / '' @
     ''K '' @ formatValue vc @ '' '' @ [CHR 0xE2, CHR 0x86, CHR 0x93]"
  by (simp add: PatientCard_def abnormalResults_def abnormalItem_def)

theorem abnormal_summary_example_witness:
  "abnormalClipboardText (PatientCard \<lparr>getDate = 3, getMonth = 10\<rparr> undatedExam) =
     ''ABC - Lab (03/11) - ALTERA'' @ [CHR 0xC3, CHR 0x87, CHR 0xC3, CHR 0x95] @ ''ES: '' @
     ''Na 150 '' @ [CHR 0xE2, CHR 0x86, CHR 0x91] @ '' / K 3,1 '' @ [CHR 0xE2, CHR 0x86, CHR 0x93]"
proof -
  have "undatedExam = undatedExam\<lparr>category := LAB, results :=
       [\<lparr>abbreviation = ''Hb'', value = ''13.2'', referenceRange = Some ''12-16'',
         abnormality = NORMAL\<rparr>,
        \<lparr>abbreviation = ''Na'', value = ''150'', referenceRange = None, abnormality = HIGH\<rparr>,
        \<lparr>abbreviation = ''K'', value = ''3.1'', referenceRange = None, abnormality = LOW\<rparr>]\<rparr>"
    by (simp add: undatedExam_def)
  with abnormal_summary_example [where exam = undatedExam and va = "''13.2''"
      and ra = "Some ''12-16''" and vb = "''150''" and rb = None and vc = "''3.1''" and rc = None
      and t = "\<lparr>getDate = 3, getMonth = 10\<rparr>"]
  show ?thesis
    by (simp add: undatedExam_def dateStr_def or_else_def ddmm_def padStart_def
        String_of_nat.simps digit_def formatValue_def)
qed

text \<open>
  Claim C7. For every \<open>NON_LAB\<close> record, whatever its results and its \<open>nonLabData\<close>, the
  abnormal-only summary is the empty string and the card reports no abnormal item.
\<close>

theorem non_lab_no_abnormal_summary:
  "category exam = NON_LAB \<Longrightarrow>
   abnormalClipboardText (PatientCard t exam) = [] \<and> \<not> hasAbnormal (PatientCard t exam)"
  by (simp add: PatientCard_def Let_def)

theorem non_lab_no_abnormal_summary_witness:
  "category reportExam = NON_LAB \<and> abnormalResults reportExam \<noteq> [] \<and>
   abnormalClipboardText (PatientCard \<lparr>getDate = 3, getMonth = 10\<rparr> reportExam) = [] \<and>
   \<not> hasAbnormal (PatientCard \<lparr>getDate = 3, getMonth = 10\<rparr> reportExam)"
proof -
  have non_lab: "category reportExam = NON_LAB"
    by (simp add: reportExam_def)
  have "abnormalResults reportExam \<noteq> []"
    by (simp add: reportExam_def abnormalResults_def)
  with non_lab non_lab_no_abnormal_summary [OF non_lab, of "\<lparr>getDate = 3, getMonth = 10\<rparr>"]
  show ?thesis by simp
qed

subsection \<open>The date shown in the headings\<close>













section \<open>Properties of the extraction service\<close>

lemma analyzeLabExam_no_key:
  "\<not> truthy (GEMINI_API_KEY e) \<Longrightarrow>
   analyzeLabExam e inp cas prefs =
     (Inl (Error (''Chave de API n'' @ [CHR 0xC3, CHR 0xA3] @ ''o configurada.'')), [])"
  by (simp add: analyzeLabExam_def)

text \<open>
  Claim C2. When the environment holds no API key, \<open>analyzeLabExam\<close> throws the
  configuration error, whatever the input, and it has done nothing before: no file was
  read, no request was sent (the list of effects is empty), and no record is returned.
\<close>

theorem analyzeLabExam_missing_key:
  "GEMINI_API_KEY e = None \<Longrightarrow>
   analyzeLabExam e inp cas prefs =
     (Inl (Error (''Chave de API n'' @ [CHR 0xC3, CHR 0xA3] @ ''o configurada.'')), [])"
  by (simp add: analyzeLabExam_no_key)

theorem analyzeLabExam_missing_key_witness:
  "GEMINI_API_KEY (answeringEnv\<lparr>GEMINI_API_KEY := None\<rparr>) = None \<and>
   analyzeLabExam (answeringEnv\<lparr>GEMINI_API_KEY := None\<rparr>)
       (Files [\<lparr>blob_type = ''application/pdf'', blob_bytes = ''QUJD''\<rparr>]) []
       \<lparr>showReferenceValues = False, groupDates = False\<rparr> =
     (Inl (Error (''Chave de API n'' @ [CHR 0xC3, CHR 0xA3] @ ''o configurada.'')), [])"
proof -
  have "GEMINI_API_KEY (answeringEnv\<lparr>GEMINI_API_KEY := None\<rparr>) = None"
    by simp
  from this analyzeLabExam_missing_key [OF this] show ?thesis by simp
qed

text \<open>
  Claim C3. A raw extraction object with category \<open>LAB\<close> and no \<open>labResults\<close> field is
  normalized to a record whose \<open>results\<close> are empty and whose \<open>rawSummary\<close> is the fallback
  string \<open>Sem dados\<close>; its category stays \<open>LAB\<close>.
\<close>

theorem normalize_lab_without_results:
  "raw_category pd = Some LAB \<Longrightarrow> labResults pd = None \<Longrightarrow>
   results (normalize u pd) = [] \<and> rawSummary (normalize u pd) = ''Sem dados'' \<and>
   category (normalize u pd) = LAB"
  by (simp add: normalize_def)

theorem normalize_lab_without_results_witness:
  "raw_category (emptyObject\<lparr>raw_category := Some LAB\<rparr>) = Some LAB \<and>
   labResults (emptyObject\<lparr>raw_category := Some LAB\<rparr>) = None \<and>
   results (normalize ''id-0'' (emptyObject\<lparr>raw_category := Some LAB\<rparr>)) = [] \<and>
   rawSummary (normalize ''id-0'' (emptyObject\<lparr>raw_category := Some LAB\<rparr>)) = ''Sem dados''"
proof -
  have cat: "raw_category (emptyObject\<lparr>raw_category := Some LAB\<rparr>) = Some LAB"
    by simp
  have lab: "labResults (emptyObject\<lparr>raw_category := Some LAB\<rparr>) = None"
    by (simp add: emptyObject_def)
  from cat lab normalize_lab_without_results [OF cat lab, of "''id-0''"] show ?thesis
    by simp
qed

lemma analyzeLabExam_returns:
  assumes "truthy (GEMINI_API_KEY e)" "fst (prepareParts e inp) = Inr ps"
    and "tryBlock e (buildRequest ps cas prefs) = Inr exams"
  shows "fst (analyzeLabExam e inp cas prefs) = Inr exams"
proof -
  obtain reads where "prepareParts e inp = (Inr ps, reads)"
    using assms(2) by (cases "prepareParts e inp") simp
  with assms(1,3) show ?thesis
    by (simp add: analyzeLabExam_def)
qed

lemma tryBlock_single_object:
  assumes "generateContent e req = Inr (Some txt)" "txt \<noteq> []"
    and "JSON_parse e txt = Inr (PObject pd)"
  shows "tryBlock e req = Inr [normalize (randomUUID e 0) pd]"
  using assms by (simp add: tryBlock_def)

text \<open>
  Claim C9. When the key is set, the input has been turned into parts, and the service
  answers with a text that parses to a single object instead of an array,
  \<open>analyzeLabExam\<close> does not throw: it returns exactly one record, the normalization of
  that object. The object has the shape of the response schema's element type.
\<close>

theorem analyzeLabExam_single_object:
  assumes "truthy (GEMINI_API_KEY e)"
    and "fst (prepareParts e inp) = Inr ps"
    and "generateContent e (buildRequest ps cas prefs) = Inr (Some txt)" "txt \<noteq> []"
    and "JSON_parse e txt = Inr (PObject pd)"
  shows "fst (analyzeLabExam e inp cas prefs) = Inr [normalize (randomUUID e 0) pd]"
  using assms(1,2) tryBlock_single_object [OF assms(3-5)]
  by (rule analyzeLabExam_returns)

lemma answeringEnv_text:
  "truthy (GEMINI_API_KEY answeringEnv)"
  "fst (prepareParts answeringEnv (Text ''Hb 12.5'')) =
     Inr [TextPart (''Analyze the following raw text from a medical document:\<newline>\<newline>'' @
                    ''Hb 12.5'')]"
  "generateContent answeringEnv req = Inr (Some ''{ }'')"
  "JSON_parse answeringEnv ''{ }'' = Inr (PObject (emptyObject\<lparr>raw_category := Some LAB\<rparr>))"
  "randomUUID answeringEnv 0 = ''id-0''"
  "importResultDisplay answeringEnv = None"
  by (simp_all add: answeringEnv_def prepareParts_def String_of_nat.simps digit_def)

theorem analyzeLabExam_single_object_witness:
  "fst (analyzeLabExam answeringEnv (Text ''Hb 12.5'') []
          \<lparr>showReferenceValues = False, groupDates = False\<rparr>) =
     Inr [\<lparr> id' = ''id-0'', patientInitials = ''N/A'', patientAge = [],
            collectionDate = Some [], category = LAB, results = [], nonLabData = None,
            rawSummary = ''Sem dados'' \<rparr>]"
  using analyzeLabExam_single_object [OF answeringEnv_text(1,2) answeringEnv_text(3) _
      answeringEnv_text(4), where cas = "[]"
      and prefs = "\<lparr>showReferenceValues = False, groupDates = False\<rparr>"]
  by (simp add: answeringEnv_text(5) normalize_def emptyObject_def or_else_def)

section \<open>Properties of the session state\<close>

lemma tryBlock_failures:
  assumes "generateContent e req = Inl x \<or> generateContent e req = Inr None \<or>
           generateContent e req = Inr (Some []) \<or>
           (\<exists>txt y. generateContent e req = Inr (Some txt) \<and> txt \<noteq> [] \<and> JSON_parse e txt = Inl y)"
  shows "\<exists>z. tryBlock e req = Inl z"
  using assms by (auto simp: tryBlock_def)

lemma analyzeLabExam_caught:
  assumes "truthy (GEMINI_API_KEY e)" "fst (prepareParts e inp) = Inr ps"
    and "tryBlock e (buildRequest ps cas prefs) = Inl z"
  shows "fst (analyzeLabExam e inp cas prefs) =
         Inl (Error (''N'' @ [CHR 0xC3, CHR 0xA3] @ ''o foi poss'' @
                        [CHR 0xC3, CHR 0xAD] @ ''vel processar o documento. Tente novamente.''))"
proof -
  obtain reads where "prepareParts e inp = (Inr ps, reads)"
    using assms(2) by (cases "prepareParts e inp") simp
  with assms(1,3) show ?thesis
    by (simp add: analyzeLabExam_def)
qed

text \<open>Whatever \<open>analyzeLabExam\<close> throws, the handler ends in the error state without records.\<close>

lemma processAnalysis_caught:
  assumes "fst (analyzeLabExam e inp (customAbbreviations a) (preferences a)) = Inl x"
  shows "map state (processAnalysis e inp existingData a) =
     [\<lparr>status = ANALYZING, data = existingData, error = None\<rparr>,
      \<lparr>status = ERROR, data = None,
       error = Some (or_else (message x) ''Ocorreu um erro desconhecido ao processar o exame.'')\<rparr>]"
  using assms by (simp add: processAnalysis_def Let_def)

text \<open>
  Claim C1, as the code has it. When the extraction call fails (the service throws, its
  response has no text or an empty one, or the text does not parse), the session keeps the
  prior records only while the call is pending: the state set in the \<open>catch\<close> block has
  status \<open>ERROR\<close>, the message of the error, and no record list. The prior records are
  discarded, not preserved.
\<close>

theorem processAnalysis_failure_clears_data:
  assumes "truthy (GEMINI_API_KEY e)"
    and "fst (prepareParts e inp) = Inr ps"
    and "generateContent e (buildRequest ps (customAbbreviations a) (preferences a)) = Inl x \<or>
         generateContent e (buildRequest ps (customAbbreviations a) (preferences a)) = Inr None \<or>
         generateContent e (buildRequest ps (customAbbreviations a) (preferences a)) = Inr (Some []) \<or>
         (\<exists>txt y. generateContent e (buildRequest ps (customAbbreviations a) (preferences a))
                     = Inr (Some txt) \<and> txt \<noteq> [] \<and> JSON_parse e txt = Inl y)"
  shows "map state (processAnalysis e inp (Some prior) a) =
     [\<lparr>status = ANALYZING, data = Some prior, error = None\<rparr>,
      \<lparr>status = ERROR, data = None,
       error = Some (''N'' @ [CHR 0xC3, CHR 0xA3] @ ''o foi poss'' @
                        [CHR 0xC3, CHR 0xAD] @ ''vel processar o documento. Tente novamente.'')\<rparr>]"
proof -
  from tryBlock_failures [OF assms(3)] obtain z
    where "tryBlock e (buildRequest ps (customAbbreviations a) (preferences a)) = Inl z" ..
  from analyzeLabExam_caught [OF assms(1,2) this] show ?thesis
    by (simp add: processAnalysis_caught or_else_def)
qed

lemma failingEnv_text:
  "truthy (GEMINI_API_KEY failingEnv)"
  "fst (prepareParts failingEnv (Text ''Hb 12.5'')) =
     Inr [TextPart (''Analyze the following raw text from a medical document:\<newline>\<newline>'' @
                    ''Hb 12.5'')]"
  "generateContent failingEnv req = Inl (Error ''Failed to fetch'')"
  by (simp_all add: failingEnv_def answeringEnv_def prepareParts_def)

theorem processAnalysis_failure_clears_data_witness:
  "map state (processAnalysis failingEnv (Text ''Hb 12.5'') (Some [priorExam]) startApp) =
     [\<lparr>status = ANALYZING, data = Some [priorExam], error = None\<rparr>,
      \<lparr>status = ERROR, data = None,
       error = Some (''N'' @ [CHR 0xC3, CHR 0xA3] @ ''o foi poss'' @
                        [CHR 0xC3, CHR 0xAD] @ ''vel processar o documento. Tente novamente.'')\<rparr>]"
  using processAnalysis_failure_clears_data [OF failingEnv_text(1,2), where a = startApp
      and x = "Error ''Failed to fetch''" and prior = "[priorExam]"]
  by (simp add: failingEnv_text(3))

text \<open>
  The claim as the specification words it fails: after a network failure the session that
  held \<open>priorExam\<close> no longer holds it.
\<close>

theorem processAnalysis_failure_loses_prior:
  "data (state (last (processAnalysis failingEnv (Text ''Hb 12.5'') (Some [priorExam]) startApp)))
     \<noteq> Some [priorExam]"
  by (simp add: processAnalysis_def analyzeLabExam_def prepareParts_def tryBlock_def
      failingEnv_def answeringEnv_def startApp_def Let_def)

text \<open>
  Claim C4. Starting from the empty session, an analysis that yields one record puts that
  record in the session, and removing it by its id brings the session back to the empty
  state: status \<open>IDLE\<close>, no record list, no error.
\<close>

theorem remove_only_exam_returns_to_idle:
  assumes "state a = initialState"
    and "fst (analyzeLabExam e inp (customAbbreviations a) (preferences a)) = Inr [r]"
    and "importResultDisplay e = None"
  shows "data (state (last (processAnalysis e inp (data (state a)) a))) = Some [r] \<and>
         handleRemoveExam (id' r) (state (last (processAnalysis e inp (data (state a)) a)))
           = \<lparr>status = IDLE, data = None, error = None\<rparr>"
  using assms
  by (simp add: processAnalysis_def handleRemoveExam_def initialState_def Let_def)

theorem remove_only_exam_returns_to_idle_witness:
  "state startApp = initialState \<and>
   handleRemoveExam ''id-0''
     (state (last (processAnalysis answeringEnv (Text ''Hb 12.5'') None startApp)))
     = \<lparr>status = IDLE, data = None, error = None\<rparr>"
proof -
  have start: "state startApp = initialState" "data (state startApp) = None"
    "customAbbreviations startApp = []"
    "preferences startApp = \<lparr>showReferenceValues = False, groupDates = False\<rparr>"
    by (simp_all add: startApp_def initialState_def)
  have one: "fst (analyzeLabExam answeringEnv (Text ''Hb 12.5'') (customAbbreviations startApp)
      (preferences startApp)) =
     Inr [normalize ''id-0'' (emptyObject\<lparr>raw_category := Some LAB\<rparr>)]"
    unfolding start
    using answeringEnv_text(1,2)
      tryBlock_single_object [OF answeringEnv_text(3) _ answeringEnv_text(4)]
    by (simp add: analyzeLabExam_returns answeringEnv_text(5))
  from remove_only_exam_returns_to_idle [OF start(1) one answeringEnv_text(6)] start
  show ?thesis by (simp add: normalize_def)
qed

end
